theory Spec2Isabelle
  imports Complex_Main "HOL-Library.Sublist" "HOL-Library.Multiset" "HOL-Library.Product_Lexorder"
    "HOL-Library.List_Lexorder"
begin

section \<open>Numbers of the service\<close>

text \<open>
  \<open>maxDistance\<close> is a JavaScript number whose default is \<open>Infinity\<close>, and the ranges derived
  from it by division are JavaScript numbers too: a division never raises, it yields a
  finite number, an infinity (also by overflow) or NaN. The finite values are taken as
  real numbers.
\<close>

datatype number = Num real | Infinity | NegInfinity | NaN

text \<open>The least magnitude that rounds to an infinity in binary64.\<close>

definition js_overflow :: real where
  "js_overflow = 2 ^ 1024 - 2 ^ 970"

definition js_finite :: "real \<Rightarrow> number" where
  "js_finite x =
     (if js_overflow \<le> x then Infinity else if x \<le> - js_overflow then NegInfinity else Num x)"

text \<open>JavaScript \<open>a / b\<close> for a finite divisor; a zero divisor is taken as \<open>+0\<close>.\<close>

fun js_div :: "number \<Rightarrow> real \<Rightarrow> number" where
  "js_div (Num a) b =
     (if b \<noteq> 0 then js_finite (a / b)
      else if 0 < a then Infinity else if a < 0 then NegInfinity else NaN)"
| "js_div Infinity b = (if b < 0 then NegInfinity else Infinity)"
| "js_div NegInfinity b = (if b < 0 then Infinity else NegInfinity)"
| "js_div NaN b = NaN"

text \<open>JavaScript \<open>d <= m\<close> and \<open>d > m\<close> for a finite \<open>d\<close>: every comparison with NaN is false.\<close>

fun js_le :: "real \<Rightarrow> number \<Rightarrow> bool" where
  "js_le d (Num m) = (d \<le> m)"
| "js_le d Infinity = True"
| "js_le d NegInfinity = False"
| "js_le d NaN = False"

fun js_gt :: "real \<Rightarrow> number \<Rightarrow> bool" where
  "js_gt d (Num m) = (m < d)"
| "js_gt d Infinity = False"
| "js_gt d NegInfinity = True"
| "js_gt d NaN = False"

text \<open>
  \<open>Math.cos(lat * Math.PI / 180)\<close>. \<open>Math.PI\<close> lies below \<open>\<pi>\<close> by about \<open>1.22e-16\<close>, so at an
  odd multiple of 90 degrees the argument falls short of the zero of the cosine and the
  result is a small number, not zero: \<open>Math.cos(90 * Math.PI / 180)\<close> is
  \<open>6.123233995736766e-17\<close>, the binary64 number \<open>pole_cos\<close>.
\<close>

definition pole_cos :: real where
  "pole_cos = 4967757600021511 / 2 ^ 106"

definition Math_cos_deg :: "real \<Rightarrow> real" where
  "Math_cos_deg lat =
     (if cos (lat * pi / 180) = 0 then sin (lat * pi / 180) * (lat / 90) * pole_cos
      else cos (lat * pi / 180))"

section \<open>The catalog\<close>

text \<open>
  A row of table \<open>airports\<close> (scripts/migrate.js), with the columns the service selects:
  \<open>icao\<close> (unique), \<open>name\<close>, \<open>latitude\<close> and \<open>longitude\<close> are NOT NULL, the others may be
  NULL.
\<close>

record airport =
  icao :: string
  name :: string
  latitude :: real
  longitude :: real
  city :: "string option"
  country :: "string option"
  elevation :: "int option"
  type :: "string option"

text \<open>A row of a query's result: the selected columns, and \<open>distance\<close> when it is selected.\<close>

record row = airport +
  distance :: "real option"

definition select_row :: "airport \<Rightarrow> real option \<Rightarrow> row" where
  "select_row a d =
     \<lparr>icao = icao a, name = name a, latitude = latitude a, longitude = longitude a,
      city = city a, country = country a, elevation = elevation a, type = type a,
      distance = d\<rparr>"

text \<open>The object \<open>formatAirport\<close> builds; \<open>r_distance\<close> is absent unless asked for.\<close>

record formatted =
  r_icao :: string
  r_name :: string
  r_lat :: real
  r_lon :: real
  r_city :: "string option"
  r_country :: "string option"
  r_elevation :: "int option"
  r_type :: "string option"
  r_distance :: "number option"

text \<open>\<open>parseFloat\<close> of a selected distance: of a number, the number; of \<open>undefined\<close>, NaN.\<close>

definition parseFloat :: "real option \<Rightarrow> number" where
  "parseFloat v = (case v of None \<Rightarrow> NaN | Some d \<Rightarrow> Num d)"

definition formatAirport :: "row \<Rightarrow> bool \<Rightarrow> formatted" where
  "formatAirport a includeDistance =
     \<lparr>r_icao = icao a, r_name = name a, r_lat = latitude a, r_lon = longitude a,
      r_city = city a, r_country = country a, r_elevation = elevation a, r_type = type a,
      r_distance = (if includeDistance then Some (parseFloat (distance a)) else None)\<rparr>"

section \<open>The store\<close>

text \<open>
  What the statements leave to the PostgreSQL server is a parameter of the model:
  \<^item> its \<open>float8\<close> arithmetic: \<open>f8_round\<close> gives the binary64 number that stands for the
    exact result of \<open>+\<close>, \<open>-\<close>, \<open>*\<close> and of the cast of a \<open>DECIMAL\<close> column, and
    \<open>f8_cos\<close>, \<open>f8_sin\<close>, \<open>f8_acos\<close> are the functions of its C library;
  \<^item> the order in which \<open>ORDER BY\<close> leaves rows of equal sort key, which SQL does not
    fix: \<open>tie_rank\<close> ranks the rows, by their unique \<open>icao\<close>, for that purpose;
  \<^item> the collation of the database, as a sort key \<open>collation\<close> on strings;
  \<^item> its locale: \<open>locale_lower\<close> is \<open>LOWER\<close> on a text that is not plain ASCII.
\<close>

record 'k store =
  f8_round :: "real \<Rightarrow> real"
  f8_cos :: "real \<Rightarrow> real"
  f8_sin :: "real \<Rightarrow> real"
  f8_acos :: "real \<Rightarrow> real"
  tie_rank :: "string \<Rightarrow> nat"
  collation :: "string \<Rightarrow> 'k"
  locale_lower :: "string \<Rightarrow> string"

text \<open>
  The parameters arrive as \<open>float8\<close>, infinities and NaN included; NaN compares equal to
  itself and greater than every other value. \<open>$1 + $3\<close>, \<open>$1 - $3\<close> and
  \<open>x BETWEEN lo AND hi\<close>:
\<close>

fun pg_plus :: "'k store \<Rightarrow> real \<Rightarrow> number \<Rightarrow> number" where
  "pg_plus S x (Num y) = Num (f8_round S (x + y))"
| "pg_plus S x Infinity = Infinity"
| "pg_plus S x NegInfinity = NegInfinity"
| "pg_plus S x NaN = NaN"

fun pg_minus :: "'k store \<Rightarrow> real \<Rightarrow> number \<Rightarrow> number" where
  "pg_minus S x (Num y) = Num (f8_round S (x - y))"
| "pg_minus S x Infinity = NegInfinity"
| "pg_minus S x NegInfinity = Infinity"
| "pg_minus S x NaN = NaN"

fun pg_ge :: "real \<Rightarrow> number \<Rightarrow> bool" where
  "pg_ge x (Num lo) = (lo \<le> x)"
| "pg_ge x Infinity = False"
| "pg_ge x NegInfinity = True"
| "pg_ge x NaN = False"

fun pg_le :: "real \<Rightarrow> number \<Rightarrow> bool" where
  "pg_le x (Num hi) = (x \<le> hi)"
| "pg_le x Infinity = True"
| "pg_le x NegInfinity = False"
| "pg_le x NaN = True"

definition pg_between :: "real \<Rightarrow> number \<Rightarrow> number \<Rightarrow> bool" where
  "pg_between x lo hi = (pg_ge x lo \<and> pg_le x hi)"

section \<open>The distance expression of buildGeoQuery\<close>

datatype error = InputOutOfRange | LimitNegative | BigintOutOfRange

text \<open>
  \<open>radians(x)\<close> is the \<open>float8\<close> product of \<open>x\<close> and the constant \<open>RADIANS_PER_DEGREE\<close>
  (\<open>0.0174532925199432957692\<close> as binary64).
\<close>

definition RADIANS_PER_DEGREE :: real where
  "RADIANS_PER_DEGREE = 5030569068109113 / 2 ^ 58"

definition radians :: "'k store \<Rightarrow> real \<Rightarrow> real" where
  "radians S x = f8_round S (x * RADIANS_PER_DEGREE)"

text \<open>PostgreSQL \<open>acos\<close> raises "input is out of range" outside \<open>[-1, 1]\<close>.\<close>

definition pg_acos :: "'k store \<Rightarrow> real \<Rightarrow> error + real" where
  "pg_acos S x = (if - 1 \<le> x \<and> x \<le> 1 then Inr (f8_acos S x) else Inl InputOutOfRange)"

text \<open>
  \<open>cos(radians($1)) * cos(radians(latitude)) * cos(radians(longitude) - radians($2))
  + sin(radians($1)) * sin(radians(latitude))\<close>, each operation in \<open>float8\<close>.
\<close>

definition acos_arg :: "'k store \<Rightarrow> real \<Rightarrow> real \<Rightarrow> airport \<Rightarrow> real" where
  "acos_arg S p1 p2 a =
     (let lat = f8_round S (latitude a);
          lon = f8_round S (longitude a);
          cc = f8_round S (f8_cos S (radians S p1) * f8_cos S (radians S lat));
          ccc = f8_round S (cc * f8_cos S (f8_round S (radians S lon - radians S p2)));
          ss = f8_round S (f8_sin S (radians S p1) * f8_sin S (radians S lat))
      in f8_round S (ccc + ss))"

definition distance_expr :: "'k store \<Rightarrow> real \<Rightarrow> real \<Rightarrow> airport \<Rightarrow> error + real" where
  "distance_expr S p1 p2 a =
     (case pg_acos S (acos_arg S p1 p2 a) of
        Inl e \<Rightarrow> Inl e
      | Inr t \<Rightarrow> Inr (f8_round S (6371 * t)))"

text \<open>The select list of \<open>buildGeoQuery(includeDistance)\<close> on one row of the table.\<close>

definition buildGeoQuery :: "bool \<Rightarrow> 'k store \<Rightarrow> real \<Rightarrow> real \<Rightarrow> airport \<Rightarrow> error + row" where
  "buildGeoQuery includeDistance S p1 p2 a =
     (if includeDistance
      then (case distance_expr S p1 p2 a of
              Inl e \<Rightarrow> Inl e
            | Inr d \<Rightarrow> Inr (select_row a (Some d)))
      else Inr (select_row a None))"

text \<open>
  Notions for the statements below: whether the argument the store computes lies in the
  domain of \<open>acos\<close>, and the distance the store computes.
\<close>

definition in_domain :: "'k store \<Rightarrow> real \<Rightarrow> real \<Rightarrow> airport \<Rightarrow> bool" where
  "in_domain S p1 p2 a = (- 1 \<le> acos_arg S p1 p2 a \<and> acos_arg S p1 p2 a \<le> 1)"

definition distanceKm :: "'k store \<Rightarrow> real \<Rightarrow> real \<Rightarrow> airport \<Rightarrow> real" where
  "distanceKm S p1 p2 a = f8_round S (6371 * f8_acos S (acos_arg S p1 p2 a))"

section \<open>The geographic queries\<close>

text \<open>PostgreSQL raises when a selected expression raises on a row that passed \<open>WHERE\<close>.\<close>

fun collect :: "(error + 'a) list \<Rightarrow> error + 'a list" where
  "collect [] = Inr []"
| "collect (x # xs) =
     (case x of
        Inl e \<Rightarrow> Inl e
      | Inr v \<Rightarrow> (case collect xs of Inl e \<Rightarrow> Inl e | Inr vs \<Rightarrow> Inr (v # vs)))"

text \<open>
  \<open>typeFilter\<close>: the clause \<open>AND type = ANY($n)\<close> is appended only when \<open>types.length > 0\<close>;
  on a NULL \<open>type\<close> the comparison is NULL and the row is dropped.
\<close>

definition typeFilter :: "string list \<Rightarrow> airport \<Rightarrow> bool" where
  "typeFilter types a =
     (if length types > 0
      then (case type a of None \<Rightarrow> False | Some t \<Rightarrow> t \<in> set types)
      else True)"

text \<open>
  \<open>WHERE latitude BETWEEN $1 - $3 AND $1 + $3 AND longitude BETWEEN $2 - $4 AND $2 + $4\<close>
  followed by the type filter. The \<open>DECIMAL\<close> columns are cast to \<open>float8\<close>.
\<close>

definition in_rectangle :: "'k store \<Rightarrow> real \<Rightarrow> real \<Rightarrow> number \<Rightarrow> number \<Rightarrow> airport \<Rightarrow> bool" where
  "in_rectangle S p1 p2 p3 p4 a =
     (pg_between (f8_round S (latitude a)) (pg_minus S p1 p3) (pg_plus S p1 p3) \<and>
      pg_between (f8_round S (longitude a)) (pg_minus S p2 p4) (pg_plus S p2 p4))"

definition geo_where ::
  "'k store \<Rightarrow> real \<Rightarrow> real \<Rightarrow> number \<Rightarrow> number \<Rightarrow> string list \<Rightarrow> airport \<Rightarrow> bool" where
  "geo_where S p1 p2 p3 p4 types a = (in_rectangle S p1 p2 p3 p4 a \<and> typeFilter types a)"

text \<open>
  \<open>ORDER BY distance\<close>: ascending, NULLs last; rows of equal distance in the order the
  store gives them.
\<close>

definition order_key :: "'k store \<Rightarrow> row \<Rightarrow> (nat \<times> real) \<times> nat" where
  "order_key S r =
     ((case distance r of Some d \<Rightarrow> (0, d) | None \<Rightarrow> (1, 0)), tie_rank S (icao r))"

text \<open>
  \<open>LIMIT n\<close> over a subplan. The parameter is a \<open>bigint\<close>: a value outside its range is
  refused when the statement is bound ("out of range for type bigint"; from \<open>1e21\<close> on,
  where JavaScript prints an exponent, "invalid input syntax"). A negative limit raises
  "LIMIT must not be negative" before the subplan runs, and \<open>LIMIT 0\<close> returns no row
  without running it; otherwise the subplan's error is the statement's.
\<close>

definition pg_limit :: "int \<Rightarrow> error + 'a list \<Rightarrow> error + 'a list" where
  "pg_limit n subplan =
     (if n < - (2 ^ 63) \<or> 2 ^ 63 \<le> n then Inl BigintOutOfRange
      else if n < 0 then Inl LimitNegative
      else if n = 0 then Inr []
      else (case subplan of Inl e \<Rightarrow> Inl e | Inr rows \<Rightarrow> Inr (take (nat n) rows)))"

text \<open>
  The statement both methods send: \<open>buildGeoQuery()\<close>, the \<open>WHERE\<close> clause,
  \<open>ORDER BY distance LIMIT n\<close>, on the table \<open>cat\<close>. The sort reads every row that passes
  \<open>WHERE\<close>, with its distance, before the first row is returned.
\<close>

definition geo_sorted ::
  "'k store \<Rightarrow> airport list \<Rightarrow> real \<Rightarrow> real \<Rightarrow> number \<Rightarrow> number \<Rightarrow> string list \<Rightarrow> error + row list" where
  "geo_sorted S cat p1 p2 p3 p4 types =
     (case collect (map (buildGeoQuery True S p1 p2) (filter (geo_where S p1 p2 p3 p4 types) cat)) of
        Inl e \<Rightarrow> Inl e
      | Inr rows \<Rightarrow> Inr (sort_key (order_key S) rows))"

definition geo_query ::
  "'k store \<Rightarrow> airport list \<Rightarrow> real \<Rightarrow> real \<Rightarrow> number \<Rightarrow> number \<Rightarrow> string list \<Rightarrow> int
     \<Rightarrow> error + row list" where
  "geo_query S cat p1 p2 p3 p4 types n = pg_limit n (geo_sorted S cat p1 p2 p3 p4 types)"

definition default_types :: "string list" where
  "default_types = [''large_airport'', ''medium_airport'', ''small_airport'']"

text \<open>The ranges both methods compute from \<open>maxDistance\<close>.\<close>

definition latRange :: "number \<Rightarrow> number" where
  "latRange maxDistance = (if maxDistance = Infinity then Num 90 else js_div maxDistance 111)"

definition lonRange :: "real \<Rightarrow> number \<Rightarrow> number" where
  "lonRange lat maxDistance =
     (if maxDistance = Infinity then Num 180
      else js_div maxDistance (111 * Math_cos_deg lat))"

text \<open>
  An argument left out (\<open>None\<close>) takes the default of the parameter list:
  \<open>maxDistance = Infinity\<close>, \<open>limit = 5\<close>, \<open>types\<close> the three airport classes.
  \<open>null\<close> is the method's "none found".
\<close>

definition or_default :: "'a option \<Rightarrow> 'a \<Rightarrow> 'a" where
  "or_default arg d = (case arg of None \<Rightarrow> d | Some v \<Rightarrow> v)"

definition findNearestAirport ::
  "'k store \<Rightarrow> airport list \<Rightarrow> real \<Rightarrow> real \<Rightarrow> number option \<Rightarrow> string list option
     \<Rightarrow> error + formatted option" where
  "findNearestAirport S cat lat lon maxDistance_arg types_arg =
     (let maxDistance = or_default maxDistance_arg Infinity;
          types = or_default types_arg default_types
      in case geo_query S cat lat lon (latRange maxDistance) (lonRange lat maxDistance) types 1 of
           Inl e \<Rightarrow> Inl e
         | Inr rows \<Rightarrow>
             (case rows of
                [] \<Rightarrow> Inr None
              | r # _ \<Rightarrow>
                  if maxDistance \<noteq> Infinity \<and>
                     (case distance r of None \<Rightarrow> False | Some d \<Rightarrow> js_gt d maxDistance)
                  then Inr None
                  else Inr (Some (formatAirport r True))))"

definition radius_filter :: "number \<Rightarrow> row \<Rightarrow> bool" where
  "radius_filter maxDistance a =
     (maxDistance = Infinity \<or>
      (case parseFloat (distance a) of Num d \<Rightarrow> js_le d maxDistance | _ \<Rightarrow> False))"

definition findNearestAirports ::
  "'k store \<Rightarrow> airport list \<Rightarrow> real \<Rightarrow> real \<Rightarrow> int option \<Rightarrow> number option \<Rightarrow> string list option
     \<Rightarrow> error + formatted list" where
  "findNearestAirports S cat lat lon limit_arg maxDistance_arg types_arg =
     (let limit = or_default limit_arg 5;
          maxDistance = or_default maxDistance_arg Infinity;
          types = or_default types_arg default_types
      in case geo_query S cat lat lon (latRange maxDistance) (lonRange lat maxDistance) types limit of
           Inl e \<Rightarrow> Inl e
         | Inr rows \<Rightarrow>
             Inr (map (\<lambda>a. formatAirport a True) (filter (radius_filter maxDistance) rows)))"

text \<open>
  Notions for the statements below: the rows of the table that pass the \<open>WHERE\<close> clause
  of a method call, these rows in the order of the sort, and the object returned for a
  row of the table.
\<close>

definition candidates ::
  "'k store \<Rightarrow> airport list \<Rightarrow> real \<Rightarrow> real \<Rightarrow> number \<Rightarrow> string list \<Rightarrow> airport list" where
  "candidates S cat lat lon maxDistance types =
     filter (geo_where S lat lon (latRange maxDistance) (lonRange lat maxDistance) types) cat"

definition by_distance :: "'k store \<Rightarrow> real \<Rightarrow> real \<Rightarrow> airport list \<Rightarrow> airport list" where
  "by_distance S lat lon rows =
     sort_key (\<lambda>a. (distanceKm S lat lon a, tie_rank S (icao a))) rows"

definition geo_result :: "'k store \<Rightarrow> real \<Rightarrow> real \<Rightarrow> airport \<Rightarrow> formatted" where
  "geo_result S lat lon a = formatAirport (select_row a (Some (distanceKm S lat lon a))) True"

section \<open>Text search\<close>

text \<open>
  SQL \<open>LOWER\<close>: on plain ASCII text it maps the letters \<open>A\<close> to \<open>Z\<close>; on any other text
  it is what the locale of the store makes it.
\<close>

definition upper_letters :: string where
  "upper_letters = ''ABCDEFGHIJKLMNOPQRSTUVWXYZ''"

definition lower_letters :: string where
  "lower_letters = ''abcdefghijklmnopqrstuvwxyz''"

definition lower_char :: "char \<Rightarrow> char" where
  "lower_char c = (case map_of (zip upper_letters lower_letters) c of Some d \<Rightarrow> d | None \<Rightarrow> c)"

definition ascii :: "string \<Rightarrow> bool" where
  "ascii s = list_all (\<lambda>c. (of_char c :: nat) < 128) s"

definition lower :: "'k store \<Rightarrow> string \<Rightarrow> string" where
  "lower S s = (if ascii s then map lower_char s else locale_lower S s)"

text \<open>
  \<open>like_match p t\<close> is SQL \<open>t LIKE p\<close>: in the pattern \<open>%\<close> stands for any run of
  characters, \<open>_\<close> for any one character, and a backslash makes the next character literal.
  PostgreSQL raises on a pattern that ends in a lone backslash; the patterns of
  \<open>searchByName\<close> end in \<open>%\<close>, so that case (here: no match) does not arise.
\<close>

fun like_match :: "string \<Rightarrow> string \<Rightarrow> bool" where
  "like_match [] t = (t = [])"
| "like_match (p # ps) [] = (p = CHR ''%'' \<and> like_match ps [])"
| "like_match (p # ps) (c # t) =
     (if p = CHR ''%'' then like_match ps (c # t) \<or> like_match (p # ps) t
      else if p = CHR ''_'' then like_match ps t
      else if p = CHR 0x5C then
        (case ps of [] \<Rightarrow> False | e # ps' \<Rightarrow> e = c \<and> like_match ps' t)
      else p = c \<and> like_match ps t)"

text \<open>\<open>LOWER(col) LIKE LOWER($n)\<close> on a column that may be NULL: NULL counts as no match.\<close>

definition lower_like :: "'k store \<Rightarrow> string option \<Rightarrow> string \<Rightarrow> bool" where
  "lower_like S col pat =
     (case col of None \<Rightarrow> False | Some s \<Rightarrow> like_match (lower S pat) (lower S s))"

definition search_where :: "'k store \<Rightarrow> string \<Rightarrow> airport \<Rightarrow> bool" where
  "search_where S p1 a = (lower_like S (Some (name a)) p1 \<or> lower_like S (city a) p1)"

text \<open>\<open>CASE WHEN LOWER(name) LIKE LOWER($2) THEN 1 WHEN LOWER(city) LIKE LOWER($2) THEN 2 ELSE 3 END\<close>\<close>

definition search_rank :: "'k store \<Rightarrow> string \<Rightarrow> airport \<Rightarrow> nat" where
  "search_rank S p2 a =
     (if lower_like S (Some (name a)) p2 then 1
      else if lower_like S (city a) p2 then 2 else 3)"

text \<open>
  \<open>ORDER BY CASE ... END, name\<close>: by rank, then by the name under the collation of the
  database; rows equal in both in the order the store gives them.
\<close>

definition search_key :: "('k::linorder) store \<Rightarrow> string \<Rightarrow> airport \<Rightarrow> (nat \<times> 'k) \<times> nat" where
  "search_key S p2 a = ((search_rank S p2 a, collation S (name a)), tie_rank S (icao a))"

text \<open>\<open>searchByName(name, limit = 10)\<close> with the parameters \<open>[`%${name}%`, `${name}%`, limit]\<close>.\<close>

definition searchByName ::
  "('k::linorder) store \<Rightarrow> airport list \<Rightarrow> string \<Rightarrow> int option \<Rightarrow> error + formatted list" where
  "searchByName S cat q limit_arg =
     (let limit = or_default limit_arg 10;
          p1 = ''%'' @ q @ ''%'';
          p2 = q @ ''%''
      in case pg_limit limit
                (Inr (sort_key (search_key S p2) (filter (search_where S p1) cat))) of
           Inl e \<Rightarrow> Inl e
         | Inr rows \<Rightarrow> Inr (map (\<lambda>a. formatAirport (select_row a None) False) rows))"

text \<open>The byte-wise collation ("C").\<close>

definition c_collation :: "string \<Rightarrow> nat list" where
  "c_collation s = map of_char s"

text \<open>
  The ranking as the specification words it, on a returned facility: 1 if the name starts
  with \<open>q\<close>, 2 if the municipality starts with \<open>q\<close> and the name does not, 3 otherwise,
  letter case ignored.
\<close>

definition spec_rank :: "'k store \<Rightarrow> string \<Rightarrow> formatted \<Rightarrow> nat" where
  "spec_rank S q f =
     (if prefix (lower S q) (lower S (r_name f)) then 1
      else if (case r_city f of None \<Rightarrow> False | Some c \<Rightarrow> prefix (lower S q) (lower S c)) then 2
      else 3)"

definition spec_contains :: "'k store \<Rightarrow> string \<Rightarrow> formatted \<Rightarrow> bool" where
  "spec_contains S q f =
     (sublist (lower S q) (lower S (r_name f)) \<or>
      (case r_city f of None \<Rightarrow> False | Some c \<Rightarrow> sublist (lower S q) (lower S c)))"

text \<open>The object \<open>searchByName\<close> returns for a row of the table.\<close>

definition text_result :: "airport \<Rightarrow> formatted" where
  "text_result a = formatAirport (select_row a None) False"

text \<open>The characters with a meaning of their own in a \<open>LIKE\<close> pattern.\<close>

definition special :: "char \<Rightarrow> bool" where
  "special x = (x = CHR ''%'' \<or> x = CHR ''_'' \<or> x = CHR 0x5C)"

definition wildcard_free :: "string \<Rightarrow> bool" where
  "wildcard_free q = (CHR ''%'' \<notin> set q \<and> CHR ''_'' \<notin> set q \<and> CHR 0x5C \<notin> set q)"

subsection \<open>The route GET /icao/search\<close>

text \<open>\<open>findByICAO\<close>: \<open>WHERE LOWER(icao) = LOWER($1) LIMIT 1\<close>.\<close>

definition findByICAO :: "'k store \<Rightarrow> airport list \<Rightarrow> string \<Rightarrow> formatted option" where
  "findByICAO S cat code =
     (case take 1 (filter (\<lambda>a. lower S (icao a) = lower S code) cat) of
        [] \<Rightarrow> None
      | a # _ \<Rightarrow> Some (formatAirport (select_row a None) False))"

text \<open>
  The handler of routes/index.js behind \<open>checkDataLoaded\<close>, by the status it answers with
  (the JSON bodies keep the facilities only). A query parameter is absent (\<open>None\<close>) or a
  string; \<open>!code\<close> holds of an absent and of an empty one. \<open>limit\<close> is the parsed integer.
\<close>

datatype response =
  Status400 | Status404 | Status500 | Status503
  | Found formatted | Matches nat "formatted list"

definition truthy :: "string option \<Rightarrow> bool" where
  "truthy v = (case v of None \<Rightarrow> False | Some s \<Rightarrow> s \<noteq> [])"

definition search_route ::
  "('k::linorder) store \<Rightarrow> airport list \<Rightarrow> string option \<Rightarrow> string option \<Rightarrow> int option \<Rightarrow> response" where
  "search_route S cat code name_arg limit =
     (if \<not> length cat > 0 then Status503
      else if \<not> truthy code \<and> \<not> truthy name_arg then Status400
      else if truthy code then
        (case findByICAO S cat (or_default code []) of
           None \<Rightarrow> Status404
         | Some airport \<Rightarrow> Found airport)
      else
        (case searchByName S cat (or_default name_arg []) (Some (or_default limit 10)) of
           Inl e \<Rightarrow> Status500
         | Inr airports \<Rightarrow>
             if length airports = 0 then Status404 else Matches (length airports) airports))"

section \<open>Binary64 arithmetic\<close>

text \<open>
  Rounding of a real number to the nearest binary64 number, ties to even (overflow and
  subnormal numbers left aside), and a store whose \<open>float8\<close> operations and library
  functions are correctly rounded.
\<close>

definition two_pow :: "int \<Rightarrow> real" where
  "two_pow e = (if 0 \<le> e then 2 ^ nat e else 1 / 2 ^ nat (- e))"

definition nearest_even :: "real \<Rightarrow> int" where
  "nearest_even y =
     (let n = \<lfloor>y\<rfloor>
      in if y - of_int n < 1 / 2 then n
         else if 1 / 2 < y - of_int n then n + 1
         else if even n then n else n + 1)"

definition binary64 :: "real \<Rightarrow> real" where
  "binary64 x =
     (if x = 0 then 0
      else (let u = two_pow (\<lfloor>log 2 \<bar>x\<bar>\<rfloor> - 52) in of_int (nearest_even (x / u)) * u))"

section \<open>Example stores and catalogs\<close>

text \<open>
  A store that computes exactly, keeps rows of equal key in the order of the table and
  collates byte-wise.
\<close>

definition exact_store :: "nat list store" where
  "exact_store =
     \<lparr>f8_round = (\<lambda>x. x), f8_cos = cos, f8_sin = sin, f8_acos = arccos,
      tie_rank = (\<lambda>i. 0), collation = c_collation, locale_lower = (\<lambda>s. s)\<rparr>"

definition binary64_store :: "nat list store" where
  "binary64_store =
     \<lparr>f8_round = binary64,
      f8_cos = (\<lambda>x. binary64 (cos x)), f8_sin = (\<lambda>x. binary64 (sin x)),
      f8_acos = (\<lambda>x. binary64 (arccos x)),
      tie_rank = (\<lambda>i. 0), collation = c_collation, locale_lower = (\<lambda>s. s)\<rparr>"

definition a0 :: airport where
  "a0 = \<lparr>icao = ''ZERO'', name = ''Null Island Heliport'', latitude = 0, longitude = 0,
      city = None, country = None, elevation = None, type = Some ''heliport''\<rparr>"

definition a1 :: airport where
  "a1 = \<lparr>icao = ''EAST'', name = ''Quarter Turn Airport'', latitude = 0, longitude = 90,
      city = None, country = None, elevation = None, type = Some ''small_airport''\<rparr>"

definition albi :: airport where
  "albi = \<lparr>icao = ''LFCI'', name = ''Albi'', latitude = 43.9, longitude = 2.1,
      city = None, country = Some ''FR'', elevation = None, type = Some ''small_airport''\<rparr>"

definition orly :: airport where
  "orly = \<lparr>icao = ''LFPO'', name = ''Orly'', latitude = 48.7233, longitude = 2.3794,
      city = None, country = Some ''FR'', elevation = Some 89, type = Some ''large_airport''\<rparr>"

definition cdg :: airport where
  "cdg = \<lparr>icao = ''LFPG'', name = ''Paris CDG'', latitude = 49.0097, longitude = 2.5479,
      city = Some ''Paris'', country = Some ''FR'', elevation = Some 119, type = Some ''large_airport''\<rparr>"

definition parana :: airport where
  "parana = \<lparr>icao = ''SAAP'', name = ''Parana Airport'', latitude = - 31.7948, longitude = - 60.4804,
      city = None, country = Some ''AR'', elevation = Some 74, type = Some ''medium_airport''\<rparr>"

definition havre :: airport where
  "havre = \<lparr>icao = ''LFOH'', name = ''Le Havre'', latitude = 49.5339, longitude = 0.0881,
      city = Some ''Le Havre'', country = Some ''FR'', elevation = Some 95, type = Some ''medium_airport''\<rparr>"

text \<open>
  The position of "Albi" as binary64 numbers (43.9 and 2.1 rounded), and the numbers met
  on the way when the store computes the distance of "Albi" from its own position: the
  latitude in radians, its cosine and sine, their squares.
\<close>

definition albi_lat8 :: real where "albi_lat8 = 6178375738798899 / 2 ^ 47"

definition albi_lon8 :: real where "albi_lon8 = 4728779608739021 / 2 ^ 51"

definition x0 :: real where "x0 = 6901311940312189 / 2 ^ 53"

definition c0 :: real where "c0 = 3245073718064933 / 2 ^ 52"

definition s0 :: real where "s0 = 780701053860243 / 2 ^ 50"

definition cc0 :: real where "cc0 = 4676482950072622 / 2 ^ 53"

definition ss0 :: real where "ss0 = 8661432609336743 / 2 ^ 54"

section \<open>Sorting\<close>

lemma insort_key_map:
  "insort_key f (g x) (map g xs) = map g (insort_key (\<lambda>a. f (g a)) x xs)"
  by (induction xs) simp_all

lemma sort_key_map: "sort_key f (map g xs) = map g (sort_key (\<lambda>a. f (g a)) xs)"
  by (induction xs) (simp_all add: insort_key_map)

lemma insort_key_equiv:
  assumes "\<And>x y. (f x \<le> f y) = (g x \<le> g y)"
  shows "insort_key f x xs = insort_key g x xs"
  by (induction xs) (simp_all add: assms)

lemma sort_key_equiv:
  assumes "\<And>x y. (f x \<le> f y) = (g x \<le> g y)"
  shows "sort_key f xs = sort_key g xs"
  by (induction xs) (simp_all add: insort_key_equiv [of f g, OF assms])

lemma sorted_map_fst:
  "sorted (map (\<lambda>a. (f a, g a)) xs) \<Longrightarrow> sorted (map f xs)"
  by (induction xs) (auto simp: less_eq_prod_def less_le)



section \<open>The two methods, unfolded\<close>

lemma distance_expr_eq:
  "distance_expr S p1 p2 a =
     (if in_domain S p1 p2 a then Inr (distanceKm S p1 p2 a) else Inl InputOutOfRange)"
  by (simp add: distance_expr_def pg_acos_def in_domain_def distanceKm_def)

lemma collect_buildGeoQuery:
  "collect (map (buildGeoQuery True S p1 p2) xs) =
     (if \<forall>a \<in> set xs. in_domain S p1 p2 a
      then Inr (map (\<lambda>a. select_row a (Some (distanceKm S p1 p2 a))) xs)
      else Inl InputOutOfRange)"
  by (induction xs) (simp_all add: buildGeoQuery_def distance_expr_eq)

lemma sorted_by_distance: "sorted (map (distanceKm S lat lon) (by_distance S lat lon xs))"
  unfolding by_distance_def
  by (rule sorted_map_fst [where g = "\<lambda>a. tie_rank S (icao a)"]) (rule sorted_sort_key)

lemma set_by_distance [simp]: "set (by_distance S lat lon xs) = set xs"
  by (simp add: by_distance_def)

lemma mset_by_distance [simp]: "mset (by_distance S lat lon xs) = mset xs"
  by (simp add: by_distance_def)

lemma length_by_distance [simp]: "length (by_distance S lat lon xs) = length xs"
  by (simp add: by_distance_def)

lemma by_distance_empty [simp]: "by_distance S lat lon [] = []"
  by (simp add: by_distance_def)

lemma by_distance_Nil [simp]: "(by_distance S lat lon xs = []) = (xs = [])"
  by (metis length_by_distance length_0_conv)

lemma sort_rows:
  "sort_key (order_key S) (map (\<lambda>a. select_row a (Some (distanceKm S p1 p2 a))) xs) =
     map (\<lambda>a. select_row a (Some (distanceKm S p1 p2 a))) (by_distance S p1 p2 xs)"
proof -
  have "sort_key (\<lambda>a. order_key S (select_row a (Some (distanceKm S p1 p2 a)))) xs =
        sort_key (\<lambda>a. (distanceKm S p1 p2 a, tie_rank S (icao a))) xs"
    by (rule sort_key_equiv) (auto simp: order_key_def select_row_def less_eq_prod_def)
  then show ?thesis by (simp add: sort_key_map by_distance_def)
qed

lemma geo_sorted_eq:
  "geo_sorted S cat p1 p2 p3 p4 types =
     (if \<forall>a \<in> set (filter (geo_where S p1 p2 p3 p4 types) cat). in_domain S p1 p2 a
      then Inr (map (\<lambda>a. select_row a (Some (distanceKm S p1 p2 a)))
             (by_distance S p1 p2 (filter (geo_where S p1 p2 p3 p4 types) cat)))
      else Inl InputOutOfRange)"
  by (simp add: geo_sorted_def collect_buildGeoQuery sort_rows)

lemma radius_filter_select:
  "radius_filter m (select_row a (Some d)) = js_le d m"
  by (cases m) (simp_all add: radius_filter_def parseFloat_def select_row_def)

lemma geo_query_eq:
  "geo_query S cat p1 p2 p3 p4 types n =
     (if n < - (2 ^ 63) \<or> 2 ^ 63 \<le> n then Inl BigintOutOfRange
      else if n < 0 then Inl LimitNegative
      else if n = 0 then Inr []
      else if \<forall>a \<in> set (filter (geo_where S p1 p2 p3 p4 types) cat). in_domain S p1 p2 a
      then Inr (map (\<lambda>a. select_row a (Some (distanceKm S p1 p2 a)))
             (take (nat n) (by_distance S p1 p2 (filter (geo_where S p1 p2 p3 p4 types) cat))))
      else Inl InputOutOfRange)"
  by (auto simp add: geo_query_def pg_limit_def geo_sorted_eq take_map)

lemma distance_select: "distance (select_row a d) = d"
  by (simp add: select_row_def)

lemma format_selected:
  "formatAirport (select_row a (Some (distanceKm S lat lon a))) True = geo_result S lat lon a"
  by (simp add: geo_result_def)

lemma findNearestAirports_eq:
  "findNearestAirports S cat lat lon limit_arg maxDistance_arg types_arg =
     (let l = or_default limit_arg 5;
          m = or_default maxDistance_arg Infinity;
          c = candidates S cat lat lon m (or_default types_arg default_types)
      in if l < - (2 ^ 63) \<or> 2 ^ 63 \<le> l then Inl BigintOutOfRange
         else if l < 0 then Inl LimitNegative
         else if l = 0 then Inr []
         else if \<not> (\<forall>a \<in> set c. in_domain S lat lon a) then Inl InputOutOfRange
         else Inr (map (geo_result S lat lon)
                (filter (\<lambda>a. js_le (distanceKm S lat lon a) m)
                   (take (nat l) (by_distance S lat lon c)))))"
proof -
  let ?l = "or_default limit_arg 5"
  let ?m = "or_default maxDistance_arg Infinity"
  let ?c = "candidates S cat lat lon ?m (or_default types_arg default_types)"
  have q: "geo_query S cat lat lon (latRange ?m) (lonRange lat ?m)
             (or_default types_arg default_types) ?l =
     (if ?l < - (2 ^ 63) \<or> 2 ^ 63 \<le> ?l then Inl BigintOutOfRange
      else if ?l < 0 then Inl LimitNegative
      else if ?l = 0 then Inr []
      else if \<forall>a \<in> set ?c. in_domain S lat lon a
      then Inr (map (\<lambda>a. select_row a (Some (distanceKm S lat lon a)))
             (take (nat ?l) (by_distance S lat lon ?c)))
      else Inl InputOutOfRange)"
    unfolding candidates_def by (rule geo_query_eq)
  show ?thesis
    unfolding findNearestAirports_def Let_def q
    by (simp add: filter_map o_def radius_filter_select format_selected)
qed

lemma findNearestAirport_eq:
  "findNearestAirport S cat lat lon maxDistance_arg types_arg =
     (let m = or_default maxDistance_arg Infinity;
          c = candidates S cat lat lon m (or_default types_arg default_types)
      in if \<not> (\<forall>a \<in> set c. in_domain S lat lon a) then Inl InputOutOfRange
         else (case by_distance S lat lon c of
                 [] \<Rightarrow> Inr None
               | a # _ \<Rightarrow>
                   if js_gt (distanceKm S lat lon a) m then Inr None
                   else Inr (Some (geo_result S lat lon a))))"
proof -
  let ?m = "or_default maxDistance_arg Infinity"
  let ?c = "candidates S cat lat lon ?m (or_default types_arg default_types)"
  have js: "(m \<noteq> Infinity \<and> js_gt d m) = js_gt d m" for m d by (cases m) simp_all
  have q: "geo_query S cat lat lon (latRange ?m) (lonRange lat ?m)
             (or_default types_arg default_types) 1 =
     (if \<forall>a \<in> set ?c. in_domain S lat lon a
      then Inr (map (\<lambda>a. select_row a (Some (distanceKm S lat lon a)))
             (take 1 (by_distance S lat lon ?c)))
      else Inl InputOutOfRange)"
    unfolding candidates_def by (simp add: geo_query_eq)
  show ?thesis
    unfolding findNearestAirport_def Let_def q
    by (cases "by_distance S lat lon ?c")
       (simp_all add: js format_selected distance_select)
qed

lemma geo_result_distance:
  "r_distance (geo_result S lat lon a) = Some (Num (distanceKm S lat lon a))"
  by (simp add: geo_result_def formatAirport_def select_row_def parseFloat_def)







section \<open>The longitude range\<close>













section \<open>Evaluations on the example catalogs\<close>

lemma exact_store_sel [simp]:
  "f8_round exact_store = (\<lambda>x. x)" "f8_cos exact_store = cos" "f8_sin exact_store = sin"
  "f8_acos exact_store = arccos" "tie_rank exact_store = (\<lambda>i. 0)"
  "collation exact_store = c_collation" "locale_lower exact_store = (\<lambda>s. s)"
  by (simp_all add: exact_store_def)

text \<open>
  In exact arithmetic the argument of \<open>acos\<close> lies in \<open>[-1, 1]\<close> for every row and every
  query point: on \<open>exact_store\<close> the distance expression never raises.
\<close>

lemma abs_mult_cos_le: "\<bar>x * cos c\<bar> \<le> \<bar>x\<bar>" for x c :: real
proof -
  have "\<bar>x * cos c\<bar> = \<bar>x\<bar> * \<bar>cos c\<bar>" by (simp add: abs_mult)
  also have "\<dots> \<le> \<bar>x\<bar> * 1" by (rule mult_left_mono) (simp_all add: abs_cos_le_one)
  finally show ?thesis by simp
qed

lemma law_of_cosines_bound:
  fixes u v w :: real
  shows "\<bar>cos u * cos v * cos w + sin u * sin v\<bar> \<le> 1"
proof -
  let ?x = "cos u * cos v" and ?y = "sin u * sin v"
  have t: "\<bar>?x * cos w\<bar> \<le> \<bar>?x\<bar>" by (rule abs_mult_cos_le)
  have p: "?x + ?y = cos (u - v)" by (simp add: cos_diff)
  have m: "?x - ?y = cos (u + v)" by (simp add: cos_add)
  have "\<bar>?x + ?y\<bar> \<le> 1" "\<bar>?x - ?y\<bar> \<le> 1" unfolding p m by (rule abs_cos_le_one)+
  with t show ?thesis by (simp add: abs_le_iff) linarith
qed

lemma in_domain_exact: "in_domain exact_store p1 p2 a"
proof -
  let ?x = "cos (p1 * RADIANS_PER_DEGREE) * cos (latitude a * RADIANS_PER_DEGREE) *
              cos (longitude a * RADIANS_PER_DEGREE - p2 * RADIANS_PER_DEGREE) +
            sin (p1 * RADIANS_PER_DEGREE) * sin (latitude a * RADIANS_PER_DEGREE)"
  have "\<bar>?x\<bar> \<le> 1" by (rule law_of_cosines_bound)
  then have "- 1 \<le> ?x \<and> ?x \<le> 1" by (intro conjI; linarith)
  then show ?thesis by (simp add: in_domain_def acos_arg_def radians_def Let_def)
qed

lemma quarter_turn: "0 < 90 * RADIANS_PER_DEGREE \<and> 90 * RADIANS_PER_DEGREE \<le> pi"
  using pi_ge_two by (simp add: RADIANS_PER_DEGREE_def)

lemma arg_a0: "acos_arg exact_store 0 0 a0 = 1"
  by (simp add: acos_arg_def radians_def a0_def)

lemma arg_a1: "acos_arg exact_store 0 0 a1 = cos (90 * RADIANS_PER_DEGREE)"
  by (simp add: acos_arg_def radians_def a1_def)

lemma dom_a0: "in_domain exact_store 0 0 a0"
  by (simp add: in_domain_def arg_a0)

lemma dom_a1: "in_domain exact_store 0 0 a1"
  by (simp add: in_domain_def arg_a1)

lemma dist_a0: "distanceKm exact_store 0 0 a0 = 0"
  by (simp add: distanceKm_def arg_a0)

lemma dist_a1: "distanceKm exact_store 0 0 a1 = 6371 * (90 * RADIANS_PER_DEGREE)"
  using quarter_turn by (simp add: distanceKm_def arg_a1 arccos_cos)

lemma dist_a1_pos: "1 < distanceKm exact_store 0 0 a1"
  by (simp add: dist_a1 RADIANS_PER_DEGREE_def)




lemma ranges_unbounded: "latRange Infinity = Num 90" "lonRange lat Infinity = Num 180"
  by (simp_all add: latRange_def lonRange_def)



lemma cands_a0_unbounded: "candidates exact_store [a0] 0 0 Infinity [] = [a0]"
  by (simp add: candidates_def geo_where_def in_rectangle_def ranges_unbounded
      pg_between_def typeFilter_def a0_def)



lemma cands_two: "candidates exact_store [a1, a0] 0 0 Infinity [] = [a1, a0]"
  by (simp add: candidates_def geo_where_def in_rectangle_def ranges_unbounded
      pg_between_def typeFilter_def a0_def a1_def)

lemma by_distance_a0: "by_distance exact_store 0 0 [a0] = [a0]"
  by (simp add: by_distance_def)

lemma by_distance_two: "by_distance exact_store 0 0 [a1, a0] = [a0, a1]"
  using dist_a1_pos by (simp add: by_distance_def dist_a0)


lemma k_two:
  "findNearestAirports exact_store [a1, a0] 0 0 (Some 5) None (Some []) =
     Inr [geo_result exact_store 0 0 a0, geo_result exact_store 0 0 a1]"
  by (simp add: findNearestAirports_eq Let_def or_default_def cands_two dom_a0 dom_a1 by_distance_two)


lemma k1_a0_unbounded:
  "findNearestAirports exact_store [a0] 0 0 (Some 1) None (Some []) =
     Inr [geo_result exact_store 0 0 a0]"
  by (simp add: findNearestAirports_eq Let_def or_default_def cands_a0_unbounded dom_a0 by_distance_a0)


section \<open>Text search: patterns free of wildcards\<close>

lemma sorted_map_mono:
  assumes "sorted (map k xs)" and "\<And>x y. k x \<le> k y \<Longrightarrow> c x \<le> c y"
  shows "sorted (map c xs)"
  using assms by (induction xs) auto

lemma lower_char_cases: "lower_char c = c \<or> lower_char c \<in> set lower_letters"
proof (cases "map_of (zip upper_letters lower_letters) c")
  case None
  then show ?thesis by (simp add: lower_char_def)
next
  case (Some d)
  then have "(c, d) \<in> set (zip upper_letters lower_letters)" by (rule map_of_SomeD)
  then have "d \<in> set lower_letters" by (rule set_zip_rightD)
  with Some show ?thesis by (simp add: lower_char_def)
qed

lemma lower_char_id:
  assumes "c \<notin> set upper_letters"
  shows "lower_char c = c"
proof -
  have "c \<notin> fst ` set (zip upper_letters lower_letters)"
    using assms by (auto dest: set_zip_leftD)
  then have "map_of (zip upper_letters lower_letters) c = None"
    by (simp add: map_of_eq_None_iff)
  then show ?thesis by (simp add: lower_char_def)
qed

lemma special_not_letter: "special x \<Longrightarrow> x \<notin> set upper_letters \<and> x \<notin> set lower_letters"
  unfolding special_def upper_letters_def lower_letters_def by (elim disjE) simp_all

lemma lower_char_special:
  assumes "special x"
  shows "(lower_char c = x) = (c = x)"
proof
  assume "lower_char c = x"
  with lower_char_cases [of c] special_not_letter [OF assms] show "c = x" by auto
next
  assume "c = x"
  with special_not_letter [OF assms] show "lower_char c = x" by (simp add: lower_char_id)
qed

lemma special_in_lower:
  assumes "special x"
  shows "(x \<in> set (map lower_char q)) = (x \<in> set q)"
proof -
  have "(x \<in> lower_char ` set q) = (\<exists>c \<in> set q. lower_char c = x)" by auto
  also have "\<dots> = (x \<in> set q)" by (simp add: lower_char_special [OF assms])
  finally show ?thesis by simp
qed

lemma wildcard_free_lower: "wildcard_free (map lower_char q) = wildcard_free q"
  by (simp only: wildcard_free_def special_in_lower special_def simp_thms)

lemma ascii_pattern:
  "ascii (CHR ''%'' # q @ ''%'') = ascii q" "ascii (q @ ''%'') = ascii q"
  by (simp_all add: ascii_def)

lemma lower_percent:
  "ascii q \<Longrightarrow> lower S (CHR ''%'' # q @ ''%'') = CHR ''%'' # map lower_char q @ ''%''"
  "ascii q \<Longrightarrow> lower S (q @ ''%'') = map lower_char q @ ''%''"
  by (simp_all add: lower_def ascii_pattern lower_char_special special_def)

lemma lower_ascii: "ascii q \<Longrightarrow> lower S q = map lower_char q"
  by (simp add: lower_def)

lemma like_percent_all: "like_match ''%'' t"
  by (induction t) simp_all

lemma like_percent_percent: "like_match ''%%'' t"
  by (induction t) (simp_all add: like_percent_all)

lemma like_prefix:
  "wildcard_free p \<Longrightarrow> like_match (p @ ''%'') t = prefix p t"
proof (induction p arbitrary: t)
  case Nil
  then show ?case by (simp add: like_percent_all)
next
  case (Cons x p)
  then have x: "x \<noteq> CHR ''%''" "x \<noteq> CHR ''_''" "x \<noteq> CHR 0x5C" and p: "wildcard_free p"
    by (auto simp: wildcard_free_def)
  show ?case
  proof (cases t)
    case Nil
    with x show ?thesis by simp
  next
    case (Cons c t')
    with x Cons.IH [OF p] show ?thesis by auto
  qed
qed

lemma like_sublist:
  "wildcard_free p \<Longrightarrow> like_match (CHR ''%'' # p @ ''%'') t = sublist p t"
proof (induction t)
  case Nil
  then show ?case using like_prefix [of p "[]"] by simp
next
  case (Cons c t)
  then show ?case using like_prefix [of p "c # t"] by (simp add: sublist_Cons_right)
qed

lemma lower_like_prefix:
  "ascii q \<Longrightarrow> wildcard_free q \<Longrightarrow> lower_like S col (q @ ''%'') =
     (case col of None \<Rightarrow> False | Some s \<Rightarrow> prefix (lower S q) (lower S s))"
  by (simp add: lower_like_def lower_percent lower_ascii like_prefix wildcard_free_lower
      split: option.splits)

lemma lower_like_sublist:
  "ascii q \<Longrightarrow> wildcard_free q \<Longrightarrow> lower_like S col (CHR ''%'' # q @ ''%'') =
     (case col of None \<Rightarrow> False | Some s \<Rightarrow> sublist (lower S q) (lower S s))"
  using like_sublist [of "map lower_char q"]
  by (simp add: lower_like_def lower_percent lower_ascii wildcard_free_lower split: option.splits)

lemma text_result_sel: "r_name (text_result a) = name a" "r_city (text_result a) = city a"
  by (simp_all add: text_result_def formatAirport_def select_row_def)

lemma search_where_spec:
  "ascii q \<Longrightarrow> wildcard_free q \<Longrightarrow>
     search_where S (CHR ''%'' # q @ ''%'') a = spec_contains S q (text_result a)"
  by (simp add: search_where_def lower_like_sublist spec_contains_def text_result_sel)

lemma search_rank_spec:
  "ascii q \<Longrightarrow> wildcard_free q \<Longrightarrow> search_rank S (q @ ''%'') a = spec_rank S q (text_result a)"
  by (simp add: search_rank_def lower_like_prefix spec_rank_def text_result_sel)

lemma searchByName_eq:
  "searchByName S cat q limit_arg =
     (let l = or_default limit_arg 10
      in if l < - (2 ^ 63) \<or> 2 ^ 63 \<le> l then Inl BigintOutOfRange
         else if l < 0 then Inl LimitNegative
         else Inr (map text_result (take (nat l)
                (sort_key (search_key S (q @ ''%''))
                   (filter (search_where S (CHR ''%'' # q @ ''%'')) cat)))))"
  by (simp add: searchByName_def Let_def pg_limit_def text_result_def)

text \<open>
  For a plain ASCII text free of \<open>%\<close>, \<open>_\<close> and backslash, the search returns facilities
  that contain the text, by rank and then by name.
\<close>

lemma search_wildcard_free:
  assumes "ascii q" and "wildcard_free q"
    and "searchByName S cat q limit_arg = Inr res"
  shows "(\<forall>f \<in> set res. spec_contains S q f \<and> (\<exists>a \<in> set cat. f = text_result a)) \<and>
         sorted (map (\<lambda>f. (spec_rank S q f, collation S (r_name f))) res)"
proof -
  let ?rows = "take (nat (or_default limit_arg 10))
        (sort_key (search_key S (q @ ''%'')) (filter (search_where S (CHR ''%'' # q @ ''%'')) cat))"
  from assms(3) have res: "res = map text_result ?rows"
    by (simp add: searchByName_eq Let_def split: if_splits)
  have "set ?rows \<subseteq> set (filter (search_where S (CHR ''%'' # q @ ''%'')) cat)"
    using set_take_subset [of "nat (or_default limit_arg 10)"
        "sort_key (search_key S (q @ ''%'')) (filter (search_where S (CHR ''%'' # q @ ''%'')) cat)"]
    by simp
  then have 1: "\<forall>f \<in> set res. spec_contains S q f \<and> (\<exists>a \<in> set cat. f = text_result a)"
    using assms(1,2) by (auto simp: res search_where_spec)
  have "sorted (map (search_key S (q @ ''%'')) ?rows)"
    by (simp add: sorted_wrt_take flip: take_map)
  then have "sorted (map (\<lambda>a. (search_rank S (q @ ''%'') a, collation S (name a))) ?rows)"
    by (rule sorted_map_mono) (auto simp: search_key_def less_eq_prod_def)
  moreover have "map (\<lambda>f. (spec_rank S q f, collation S (r_name f))) res =
      map (\<lambda>a. (search_rank S (q @ ''%'') a, collation S (name a))) ?rows"
    using assms(1,2) by (simp add: res search_rank_spec text_result_sel o_def)
  ultimately show ?thesis using 1 by simp
qed

lemma lower_percents: "lower S ''%%%'' = ''%%%''" "lower S ''%%'' = ''%%''" "lower S ''%'' = ''%''"
  by (simp_all add: lower_def ascii_def lower_char_special special_def)

lemma search_where_empty: "search_where S ''%%'' a"
  by (simp add: search_where_def lower_like_def lower_percents like_percent_percent)

lemma search_rank_empty: "search_rank S ''%'' a = 1"
  by (simp add: search_rank_def lower_like_def lower_percents like_percent_all)

lemma searchByName_empty:
  assumes "0 \<le> l" and "l < 2 ^ 63"
  shows "\<exists>srt. mset srt = mset cat \<and> sorted (map (\<lambda>a. collation S (name a)) srt) \<and>
           searchByName S cat [] (Some l) = Inr (map text_result (take (nat l) srt))"
proof -
  let ?srt = "sort_key (search_key S ''%'') cat"
  have "sorted (map (search_key S ''%'') ?srt)" by (rule sorted_sort_key)
  then have "sorted (map (\<lambda>a. collation S (name a)) ?srt)"
    by (rule sorted_map_mono) (auto simp: search_key_def search_rank_empty less_eq_prod_def)
  moreover have "searchByName S cat [] (Some l) = Inr (map text_result (take (nat l) ?srt))"
    using assms by (simp add: searchByName_eq or_default_def search_where_empty)
  ultimately show ?thesis by (intro exI [of _ ?srt]) simp
qed

section \<open>Evaluations of the text search\<close>

lemma albi_sel: "name albi = ''Albi''" "city albi = None"
  by (simp_all add: albi_def)

lemma orly_sel: "name orly = ''Orly''" "city orly = None"
  by (simp_all add: orly_def)

lemma lower_Albi: "lower S ''Albi'' = ''albi''"
  by (simp add: lower_def ascii_def lower_char_def upper_letters_def lower_letters_def)

lemma lower_pat:
  "lower S ''%a%b%'' = ''%a%b%''" "lower S ''a%b%'' = ''a%b%''" "lower S ''a%b'' = ''a%b''"
  by (simp_all add: lower_def ascii_def lower_char_def upper_letters_def lower_letters_def)

lemma where_albi: "search_where S ''%a%b%'' albi"
  by (simp add: search_where_def lower_like_def albi_sel lower_Albi lower_pat)

lemma search_albi: "searchByName S [albi] ''a%b'' (Some 10) = Inr [text_result albi]"
  using where_albi by (simp add: searchByName_eq or_default_def)

lemma lower_Orly: "lower S ''Orly'' = ''orly''"
  by (simp add: lower_def ascii_def lower_char_def upper_letters_def lower_letters_def)

lemma lower_names:
  "lower S ''Paris CDG'' = ''paris cdg''" "lower S ''Paris'' = ''paris''"
  "lower S ''Parana Airport'' = ''parana airport''" "lower S ''Le Havre'' = ''le havre''"
  "lower S ''par'' = ''par''"
  by (simp_all add: lower_def ascii_def lower_char_def upper_letters_def lower_letters_def)

lemma par_plain: "ascii ''par''" "wildcard_free ''par''"
  by (simp_all add: ascii_def wildcard_free_def)

lemma where_par:
  "search_where S ''%par%'' cdg" "search_where S ''%par%'' parana"
  "\<not> search_where S ''%par%'' havre"
  by (simp_all add: search_where_spec [OF par_plain, simplified] spec_contains_def
      text_result_sel cdg_def parana_def havre_def lower_names sublist_Cons_right)

lemma rank_par:
  "search_rank S ''par%'' cdg = 1" "search_rank S ''par%'' parana = 1"
  by (simp_all add: search_rank_spec [OF par_plain, simplified] spec_rank_def
      text_result_sel cdg_def parana_def lower_names)

lemma collate_par: "c_collation (name parana) < c_collation (name cdg)"
  by (simp add: c_collation_def parana_def cdg_def)

text \<open>
  The example of the specification: \<open>"par"\<close> finds "Parana Airport" and "Paris CDG", both
  of rank 1 and in the order of their names, and not "Le Havre".
\<close>

lemma search_par:
  "searchByName exact_store [cdg, parana, havre] ''par'' None =
     Inr [text_result parana, text_result cdg]"
  using collate_par
  by (simp add: searchByName_eq or_default_def where_par search_key_def rank_par)

lemma search_empty_two:
  "searchByName exact_store [orly, albi] [] (Some 5) = Inr [text_result albi, text_result orly]"
proof -
  have "c_collation (name albi) < c_collation (name orly)"
    by (simp add: c_collation_def albi_sel orly_sel)
  then show ?thesis
    by (simp add: searchByName_eq or_default_def search_where_empty search_key_def search_rank_empty)
qed

section \<open>The distance of a stored position from itself, in binary64\<close>

lemma two_pow_powr: "two_pow e = 2 powr (of_int e)"
proof (cases "0 \<le> e")
  case True
  then have "2 powr (of_int e) = (2::real) powr (real (nat e))" by simp
  also have "\<dots> = 2 ^ nat e" by (simp add: powr_realpow)
  finally show ?thesis using True by (simp add: two_pow_def)
next
  case False
  then have "(2::real) powr (of_int e) = 2 powr (- real (nat (- e)))" by simp
  also have "\<dots> = 1 / 2 ^ nat (- e)" by (simp add: powr_minus_divide powr_realpow)
  finally show ?thesis using False by (simp add: two_pow_def)
qed

lemma two_pow_pos: "0 < two_pow e"
  by (simp add: two_pow_powr)

lemma nearest_even_eq:
  assumes "of_int m - 1 / 2 < y" and "y < of_int m + 1 / 2"
  shows "nearest_even y = m"
proof (cases "of_int m \<le> y")
  case True
  with assms have "\<lfloor>y\<rfloor> = m" by (intro floor_unique) linarith+
  with assms show ?thesis by (simp add: nearest_even_def)
next
  case False
  with assms have "\<lfloor>y\<rfloor> = m - 1" by (intro floor_unique) simp_all
  with assms False show ?thesis by (simp add: nearest_even_def Let_def)
qed

lemma binary64_eval:
  assumes "two_pow e \<le> \<bar>x\<bar>" and "\<bar>x\<bar> < two_pow (e + 1)"
    and "of_int m - 1 / 2 < x / two_pow (e - 52)" and "x / two_pow (e - 52) < of_int m + 1 / 2"
  shows "binary64 x = of_int m * two_pow (e - 52)"
proof -
  from assms(1) two_pow_pos [of e] have nz: "x \<noteq> 0" by auto
  then have "0 < \<bar>x\<bar>" by simp
  then have "\<lfloor>log 2 \<bar>x\<bar>\<rfloor> = e"
    using assms(1,2) by (simp add: floor_log_eq_powr_iff two_pow_powr)
  with nz show ?thesis
    by (simp add: binary64_def Let_def nearest_even_eq [OF assms(3,4)])
qed

lemma binary64_0: "binary64 0 = 0"
  by (simp add: binary64_def)

lemma binary64_1: "binary64 1 = 1"
  using binary64_eval [of 0 1 "2 ^ 52"] by (simp add: two_pow_def)

lemma cos_taylor_bound:
  "\<bar>cos x - (\<Sum>m<n. cos_coeff m * x ^ m)\<bar> \<le> \<bar>x\<bar> ^ n / fact n"
proof -
  obtain t where "cos x = (\<Sum>m<n. cos_coeff m * x ^ m) + (cos (t + 1 / 2 * real n * pi) / fact n) * x ^ n"
    using Maclaurin_cos_expansion [of x n] by blast
  then have "\<bar>cos x - (\<Sum>m<n. cos_coeff m * x ^ m)\<bar> = \<bar>cos (t + 1 / 2 * real n * pi)\<bar> * (\<bar>x\<bar> ^ n / fact n)"
    by (simp add: abs_mult power_abs)
  also have "\<dots> \<le> 1 * (\<bar>x\<bar> ^ n / fact n)"
    by (rule mult_right_mono) (simp_all add: abs_cos_le_one)
  finally show ?thesis by simp
qed

lemma sin_taylor_bound:
  "\<bar>sin x - (\<Sum>m<n. sin_coeff m * x ^ m)\<bar> \<le> \<bar>x\<bar> ^ n / fact n"
  using Maclaurin_sin_bound [of x n] by (simp add: divide_inverse mult.commute)

lemma cos_sum20:
  "(\<Sum>m<20. cos_coeff m * x ^ m) =
     1 - x^2 / fact 2 + x^4 / fact 4 - x^6 / fact 6 + x^8 / fact 8 - x^10 / fact 10
       + x^12 / fact 12 - x^14 / fact 14 + x^16 / fact 16 - x^18 / fact 18" for x :: real
  by (simp add: lessThan_nat_numeral cos_coeff_def del: fact_numeral)

lemma sin_sum20:
  "(\<Sum>m<20. sin_coeff m * x ^ m) =
     x - x^3 / fact 3 + x^5 / fact 5 - x^7 / fact 7 + x^9 / fact 9 - x^11 / fact 11
       + x^13 / fact 13 - x^15 / fact 15 + x^17 / fact 17 - x^19 / fact 19" for x :: real
  by (simp add: lessThan_nat_numeral sin_coeff_def del: fact_numeral)

lemma cos_poly_x0:
  "c0 - 1 / 2 ^ 54 + x0 ^ 20 / fact 20 <
     1 - x0^2 / fact 2 + x0^4 / fact 4 - x0^6 / fact 6 + x0^8 / fact 8 - x0^10 / fact 10
       + x0^12 / fact 12 - x0^14 / fact 14 + x0^16 / fact 16 - x0^18 / fact 18"
  "1 - x0^2 / fact 2 + x0^4 / fact 4 - x0^6 / fact 6 + x0^8 / fact 8 - x0^10 / fact 10
       + x0^12 / fact 12 - x0^14 / fact 14 + x0^16 / fact 16 - x0^18 / fact 18 + x0 ^ 20 / fact 20
     < c0 + 1 / 2 ^ 54"
  unfolding x0_def c0_def by (simp_all add: fact_numeral power_divide)

lemma sin_poly_x0:
  "s0 - 1 / 2 ^ 54 + x0 ^ 20 / fact 20 <
     x0 - x0^3 / fact 3 + x0^5 / fact 5 - x0^7 / fact 7 + x0^9 / fact 9 - x0^11 / fact 11
       + x0^13 / fact 13 - x0^15 / fact 15 + x0^17 / fact 17 - x0^19 / fact 19"
  "x0 - x0^3 / fact 3 + x0^5 / fact 5 - x0^7 / fact 7 + x0^9 / fact 9 - x0^11 / fact 11
       + x0^13 / fact 13 - x0^15 / fact 15 + x0^17 / fact 17 - x0^19 / fact 19 + x0 ^ 20 / fact 20
     < s0 + 1 / 2 ^ 54"
  unfolding x0_def s0_def by (simp_all add: fact_numeral power_divide)

lemma x0_nonneg: "\<bar>x0\<bar> = x0"
  by (simp add: x0_def)

lemma cos_x0: "c0 - 1 / 2 ^ 54 < cos x0 \<and> cos x0 < c0 + 1 / 2 ^ 54"
  using cos_taylor_bound [of x0 20] cos_poly_x0
  unfolding cos_sum20 x0_nonneg by (simp only: abs_le_iff) linarith

lemma sin_x0: "s0 - 1 / 2 ^ 54 < sin x0 \<and> sin x0 < s0 + 1 / 2 ^ 54"
  using sin_taylor_bound [of x0 20] sin_poly_x0
  unfolding sin_sum20 x0_nonneg by (simp only: abs_le_iff) linarith

lemma binary64_cos_x0: "binary64 (cos x0) = c0"
proof -
  have b: "c0 - 1 / 2 ^ 54 < cos x0" "cos x0 < c0 + 1 / 2 ^ 54" using cos_x0 by simp_all
  have "binary64 (cos x0) = of_int 6490147436129866 * two_pow (- 1 - 52)"
  proof (rule binary64_eval)
    show "two_pow (- 1) \<le> \<bar>cos x0\<bar>" using b by (simp add: two_pow_def c0_def)
    show "\<bar>cos x0\<bar> < two_pow (- 1 + 1)" using b by (simp add: two_pow_def c0_def)
    show "of_int 6490147436129866 - 1 / 2 < cos x0 / two_pow (- 1 - 52)"
      using b by (simp add: two_pow_def c0_def)
    show "cos x0 / two_pow (- 1 - 52) < of_int 6490147436129866 + 1 / 2"
      using b by (simp add: two_pow_def c0_def)
  qed
  then show ?thesis by (simp add: two_pow_def c0_def)
qed

lemma binary64_sin_x0: "binary64 (sin x0) = s0"
proof -
  have b: "s0 - 1 / 2 ^ 54 < sin x0" "sin x0 < s0 + 1 / 2 ^ 54" using sin_x0 by simp_all
  have "binary64 (sin x0) = of_int 6245608430881944 * two_pow (- 1 - 52)"
  proof (rule binary64_eval)
    show "two_pow (- 1) \<le> \<bar>sin x0\<bar>" using b by (simp add: two_pow_def s0_def)
    show "\<bar>sin x0\<bar> < two_pow (- 1 + 1)" using b by (simp add: two_pow_def s0_def)
    show "of_int 6245608430881944 - 1 / 2 < sin x0 / two_pow (- 1 - 52)"
      using b by (simp add: two_pow_def s0_def)
    show "sin x0 / two_pow (- 1 - 52) < of_int 6245608430881944 + 1 / 2"
      using b by (simp add: two_pow_def s0_def)
  qed
  then show ?thesis by (simp add: two_pow_def s0_def)
qed

lemma round_albi_lat: "binary64 (439 / 10) = albi_lat8"
  using binary64_eval [of 5 "439 / 10" 6178375738798899]
  by (simp add: two_pow_def albi_lat8_def)

lemma round_albi_lon: "binary64 (21 / 10) = albi_lon8"
  using binary64_eval [of 1 "21 / 10" 4728779608739021]
  by (simp add: two_pow_def albi_lon8_def)

lemma round_radians: "binary64 (albi_lat8 * RADIANS_PER_DEGREE) = x0"
  using binary64_eval [of "- 1" "albi_lat8 * RADIANS_PER_DEGREE" 6901311940312189]
  by (simp add: two_pow_def albi_lat8_def RADIANS_PER_DEGREE_def x0_def)

lemma round_cc: "binary64 (c0 * c0) = cc0"
  using binary64_eval [of "- 1" "c0 * c0" 4676482950072622]
  by (simp add: two_pow_def c0_def cc0_def)

lemma round_cc_again: "binary64 cc0 = cc0"
  using binary64_eval [of "- 1" cc0 4676482950072622]
  by (simp add: two_pow_def cc0_def)

lemma round_ss: "binary64 (s0 * s0) = ss0"
  using binary64_eval [of "- 2" "s0 * s0" 8661432609336743]
  by (simp add: two_pow_def s0_def ss0_def)

lemma round_sum: "binary64 (cc0 + ss0) = 1 + 1 / 2 ^ 52"
  using binary64_eval [of 0 "cc0 + ss0" 4503599627370497]
  by (simp add: two_pow_def cc0_def ss0_def)

lemma binary64_store_sel [simp]:
  "f8_round binary64_store = binary64" "f8_cos binary64_store = (\<lambda>x. binary64 (cos x))"
  "f8_sin binary64_store = (\<lambda>x. binary64 (sin x))"
  "f8_acos binary64_store = (\<lambda>x. binary64 (arccos x))"
  "tie_rank binary64_store = (\<lambda>i. 0)"
  by (simp_all add: binary64_store_def)

lemma albi_pos: "latitude albi = 439 / 10" "longitude albi = 21 / 10"
  by (simp_all add: albi_def)

lemma arg_albi: "acos_arg binary64_store albi_lat8 albi_lon8 albi = 1 + 1 / 2 ^ 52"
  by (simp add: acos_arg_def radians_def albi_pos round_albi_lat round_albi_lon round_radians
      binary64_cos_x0 binary64_sin_x0 binary64_0 binary64_1 round_cc round_cc_again round_ss round_sum)

lemma round_lat_minus: "binary64 (albi_lat8 - 90) = - 6487998213180621 / 2 ^ 47"
  using binary64_eval [of 5 "albi_lat8 - 90" "- 6487998213180621"]
  by (simp add: two_pow_def albi_lat8_def)

lemma round_lat_plus: "binary64 (albi_lat8 + 90) = 4711187422694605 / 2 ^ 45"
  using binary64_eval [of 7 "albi_lat8 + 90" 4711187422694605]
  by (simp add: two_pow_def albi_lat8_def)

lemma round_lon_minus: "binary64 (albi_lon8 - 180) = - 6259299794603213 / 2 ^ 45"
  using binary64_eval [of 7 "albi_lon8 - 180" "- 6259299794603213"]
  by (simp add: two_pow_def albi_lon8_def)

lemma round_lon_plus: "binary64 (albi_lon8 + 180) = 6407074157376307 / 2 ^ 45"
  using binary64_eval [of 7 "albi_lon8 + 180" 6407074157376307]
  by (simp add: two_pow_def albi_lon8_def)

lemma rect_albi:
  "in_rectangle binary64_store albi_lat8 albi_lon8 (Num 90) (Num 180) albi"
  by (simp add: in_rectangle_def pg_between_def albi_pos round_albi_lat round_albi_lon
      round_lat_minus round_lat_plus round_lon_minus round_lon_plus)
     (simp add: albi_lat8_def albi_lon8_def)

lemma cands_albi:
  "candidates binary64_store [albi] albi_lat8 albi_lon8 Infinity [] = [albi]"
  by (simp add: candidates_def geo_where_def ranges_unbounded rect_albi typeFilter_def)

lemma not_dom_albi: "\<not> in_domain binary64_store albi_lat8 albi_lon8 albi"
  by (simp add: in_domain_def arg_albi)


section \<open>Properties of the specification\<close>









text \<open>
  C4. Whatever the query point, radius, category set, limit and catalog, the list
  \<open>findNearestAirports\<close> returns carries distances in non-decreasing order; it is cut from
  the rows that pass \<open>WHERE\<close> after they are sorted by distance: the first \<open>limit\<close> of the
  sorted rows, of which those within the radius are kept.
\<close>

theorem nearest_sorted:
  assumes "findNearestAirports S cat lat lon limit_arg maxDistance_arg types_arg = Inr res"
  shows "(\<exists>ds. map r_distance res = map (\<lambda>d. Some (Num d)) ds \<and> sorted ds) \<and>
         (\<exists>srt. mset srt =
                  mset (candidates S cat lat lon (or_default maxDistance_arg Infinity)
                          (or_default types_arg default_types)) \<and>
                sorted (map (distanceKm S lat lon) srt) \<and>
                res = map (geo_result S lat lon)
                        (filter (\<lambda>a. js_le (distanceKm S lat lon a) (or_default maxDistance_arg Infinity))
                           (take (nat (or_default limit_arg 5)) srt)))"
proof -
  let ?m = "or_default maxDistance_arg Infinity"
  let ?c = "candidates S cat lat lon ?m (or_default types_arg default_types)"
  let ?srt = "by_distance S lat lon ?c"
  let ?rows = "filter (\<lambda>a. js_le (distanceKm S lat lon a) ?m)
          (take (nat (or_default limit_arg 5)) ?srt)"
  from assms have res: "res = map (geo_result S lat lon) ?rows"
    by (simp add: findNearestAirports_eq Let_def split: if_splits)
  have "sorted (map (distanceKm S lat lon) ?rows)"
    by (intro sorted_filter) (simp add: sorted_wrt_take sorted_by_distance flip: take_map)
  moreover have "map r_distance res = map (\<lambda>d. Some (Num d)) (map (distanceKm S lat lon) ?rows)"
    by (simp add: res geo_result_distance o_def)
  ultimately have 1: "\<exists>ds. map r_distance res = map (\<lambda>d. Some (Num d)) ds \<and> sorted ds" by blast
  have "mset ?srt = mset ?c \<and> sorted (map (distanceKm S lat lon) ?srt) \<and>
        res = map (geo_result S lat lon) ?rows"
    using res by (simp add: sorted_by_distance)
  with 1 show ?thesis by blast
qed

theorem nearest_sorted_witness:
  "findNearestAirports exact_store [a1, a0] 0 0 (Some 5) None (Some []) =
     Inr [geo_result exact_store 0 0 a0, geo_result exact_store 0 0 a1] \<and>
   distanceKm exact_store 0 0 a0 < distanceKm exact_store 0 0 a1 \<and>
   (\<exists>ds. map r_distance [geo_result exact_store 0 0 a0, geo_result exact_store 0 0 a1] =
           map (\<lambda>d. Some (Num d)) ds \<and> sorted ds)"
  using nearest_sorted [OF k_two] k_two dist_a1_pos by (simp add: dist_a0)



text \<open>
  C6. With \<open>maxDistance\<close> unbounded (left out, or \<open>Infinity\<close>), \<open>findNearestAirport\<close> returns
  the first element of what \<open>findNearestAirports\<close> returns for \<open>limit = 1\<close> and the same
  category set, \<open>null\<close> when that list is empty, and raises when it raises.
\<close>

theorem nearest_one_is_first_of_k:
  assumes "m = None \<or> m = Some Infinity"
  shows "findNearestAirport S cat lat lon m types_arg =
     (case findNearestAirports S cat lat lon (Some 1) m types_arg of
        Inl e \<Rightarrow> Inl e
      | Inr [] \<Rightarrow> Inr None
      | Inr (f # _) \<Rightarrow> Inr (Some f))"
proof -
  from assms have m: "or_default m Infinity = Infinity" by (auto simp: or_default_def)
  show ?thesis
    by (cases "by_distance S lat lon (candidates S cat lat lon Infinity (or_default types_arg default_types))")
       (simp_all add: findNearestAirport_eq findNearestAirports_eq Let_def m or_default_def [of "Some _"])
qed

theorem nearest_one_is_first_of_k_witness:
  "findNearestAirport exact_store [a0] 0 0 None (Some []) =
     Inr (Some (geo_result exact_store 0 0 a0)) \<and>
   findNearestAirports exact_store [a0] 0 0 (Some 1) None (Some []) =
     Inr [geo_result exact_store 0 0 a0]"
  using nearest_one_is_first_of_k [of None exact_store "[a0]" 0 0 "Some []"]
  by (simp add: k1_a0_unbounded)

text \<open>
  C7. \<open>searchByName\<close> puts the query text into its \<open>LIKE\<close> patterns as it is. For the
  text \<open>%\<close> the pattern \<open>%%%\<close> matches every name: the facility "Orly" is returned although
  neither its name nor its municipality contains \<open>%\<close>. (For a plain text free of \<open>%\<close>, \<open>_\<close>
  and backslash the results are the facilities that contain it, in rank and name order:
  \<open>search_wildcard_free\<close>.)
\<close>

theorem search_percent_matches_all:
  "searchByName S [orly] ''%'' (Some 10) = Inr [text_result orly] \<and>
   \<not> spec_contains S ''%'' (text_result orly)"
proof -
  have "search_where S ''%%%'' orly"
    by (simp add: search_where_def lower_like_def orly_sel lower_Orly lower_percents)
  moreover have "\<not> sublist ''%'' ''orly''" by (auto dest!: set_mono_sublist)
  ultimately show ?thesis
    by (simp add: searchByName_eq or_default_def spec_contains_def text_result_sel orly_sel
        lower_Orly lower_percents)
qed

text \<open>
  C8. \<open>searchByName\<close> does not reject the empty text: for a limit \<open>0 \<le> l < 2^63\<close> it runs
  the search, every row of the catalog matches, and the first \<open>l\<close> rows in name order are
  returned. The empty text is refused one level up: the route answers 400 when neither
  \<open>code\<close> nor \<open>name\<close> is given.
\<close>

theorem search_empty_text_executes:
  "(0 \<le> l \<and> l < 2 ^ 63 \<longrightarrow>
      (\<exists>srt. mset srt = mset cat \<and> sorted (map (\<lambda>a. collation S (name a)) srt) \<and>
             searchByName S cat [] (Some l) = Inr (map text_result (take (nat l) srt)))) \<and>
   (cat \<noteq> [] \<and> \<not> truthy code \<longrightarrow> search_route S cat code (Some []) limit = Status400)"
  using searchByName_empty [of l cat S] by (simp add: search_route_def truthy_def)

theorem search_empty_text_executes_witness:
  "(0::int) \<le> 5 \<and> (5::int) < 2 ^ 63 \<and> \<not> truthy None \<and>
   searchByName exact_store [orly, albi] [] (Some 5) = Inr [text_result albi, text_result orly] \<and>
   search_route exact_store [orly, albi] None (Some []) None = Status400"
  using search_empty_text_executes [of 5 "[orly, albi]" exact_store None None] search_empty_two
  by (simp add: truthy_def)

text \<open>On the empty text the search runs and returns a match, not an error.\<close>

theorem search_empty_counterexample:
  "searchByName exact_store [orly] [] (Some 10) = Inr [text_result orly]"
  by (simp add: searchByName_eq or_default_def search_where_empty)

text \<open>
  C9. The distance expression is not defined for every stored position: in binary64
  arithmetic the argument of \<open>acos\<close> for "Albi" (43.9, 2.1) seen from its own position is
  \<open>cos\<^sup>2 + sin\<^sup>2\<close> rounded to \<open>1 + 2^-52\<close>, above 1, so \<open>acos\<close> raises "input is out of
  range" and both methods fail.
\<close>

theorem self_query_raises:
  "acos_arg binary64_store albi_lat8 albi_lon8 albi = 1 + 1 / 2 ^ 52 \<and>
   distance_expr binary64_store albi_lat8 albi_lon8 albi = Inl InputOutOfRange \<and>
   buildGeoQuery True binary64_store albi_lat8 albi_lon8 albi = Inl InputOutOfRange \<and>
   findNearestAirport binary64_store [albi] albi_lat8 albi_lon8 None (Some []) =
     Inl InputOutOfRange \<and>
   findNearestAirports binary64_store [albi] albi_lat8 albi_lon8 (Some 1) None (Some []) =
     Inl InputOutOfRange"
  by (simp add: arg_albi distance_expr_eq buildGeoQuery_def not_dom_albi findNearestAirport_eq
      findNearestAirports_eq Let_def or_default_def cands_albi)

text \<open>
  C10. The query text is not escaped, so \<open>%\<close> in it acts as a wildcard: there are a
  catalog and a text containing \<open>%\<close> for which \<open>searchByName\<close> returns a facility whose
  name does not contain the text, with or without letter case, and which has no
  municipality.
\<close>

theorem like_wildcards_leak:
  "\<exists>cat q limit_arg res f.
      CHR ''%'' \<in> set q \<and> searchByName S cat q limit_arg = Inr res \<and> f \<in> set res \<and>
      \<not> sublist q (r_name f) \<and> \<not> sublist (lower S q) (lower S (r_name f)) \<and> r_city f = None"
proof -
  have n: "\<not> sublist ''a%b'' ''Albi''" "\<not> sublist ''a%b'' ''albi''"
    by (auto dest!: set_mono_sublist)
  have "CHR ''%'' \<in> set ''a%b'' \<and>
     searchByName S [albi] ''a%b'' (Some 10) = Inr [text_result albi] \<and>
     text_result albi \<in> set [text_result albi] \<and>
     \<not> sublist ''a%b'' (r_name (text_result albi)) \<and>
     \<not> sublist (lower S ''a%b'') (lower S (r_name (text_result albi))) \<and>
     r_city (text_result albi) = None"
    using n search_albi by (simp add: text_result_sel albi_sel lower_Albi lower_pat)
  then show ?thesis by blast
qed

end
